theory Spec2Isabelle
  imports Complex_Main
begin

section \<open>JavaScript values shared by both halves of the module\<close>

text \<open>
  MMM-GeminiWaveform has two halves: \<^verbatim>\<open>node_helper.js\<close> (the Bridge Client and the
  Backend Supervisor, running in Node) and \<^verbatim>\<open>MMM-GeminiWaveform.js\<close> (the Smoother, the
  Render Loop and the Renderer, running in the browser). Both are single-threaded and
  callback-driven, so every callback is modelled as a function from the object's fields
  before the call to the fields after it, together with what the callback did to the
  outside world.
\<close>

datatype js_error = SyntaxError | TypeError

text \<open>The result of \<^verbatim>\<open>JSON.parse\<close>: a JSON value. An object is its list of properties.\<close>

datatype json =
    JNull
  | JBool bool
  | JNum real
  | JStr string
  | JArr "json list"
  | JObj "(string \<times> json) list"

text \<open>
  Property access \<^verbatim>\<open>v.k\<close> for the keys the module reads (\<^verbatim>\<open>type\<close>, \<^verbatim>\<open>data\<close>), none of
  which is a built-in property of a primitive or of an array: \<^verbatim>\<open>null.k\<close> throws a
  TypeError, an object yields the property or \<^verbatim>\<open>undefined\<close> (\<open>None\<close>), anything else
  yields \<^verbatim>\<open>undefined\<close>.
\<close>

fun get_prop :: "json \<Rightarrow> string \<Rightarrow> js_error + json option" where
  "get_prop JNull k = Inl TypeError"
| "get_prop (JObj kvs) k = Inr (map_of kvs k)"
| "get_prop v k = Inr None"

text \<open>The module configuration (\<^verbatim>\<open>defaults\<close> merged with the user's values).\<close>

record config =
  width :: nat
  height :: nat
  updateInterval :: nat
  pythonHost :: string
  pythonPort :: nat
  waveColor :: string
  glowColor :: string
  idleAmplitude :: real
  animationSpeed :: real
  showDebug :: bool
  videoMode :: "string option"
  cameraIndex :: "int option"

section \<open>node\_helper.js: Bridge Client and Backend Supervisor\<close>

text \<open>
  The handles the helper keeps. Only their presence is read by the code
  (\<^verbatim>\<open>if (this.ws)\<close>, \<^verbatim>\<open>if (this.pythonProcess)\<close>, \<^verbatim>\<open>if (this.reconnectTimer)\<close>), so each is a
  one-element type under \<open>option\<close>; \<open>None\<close> is \<^verbatim>\<open>null\<close>.
\<close>

datatype socket = WebSocket
datatype child = ChildProcess
datatype timeout = Timeout

record helper =
  name :: string
  config :: "config option"
  ws :: "socket option"
  pythonProcess :: "child option"
  reconnectTimer :: "timeout option"
  reconnectAttempts :: nat

text \<open>The two deferred callbacks handed to \<^verbatim>\<open>setTimeout\<close>.\<close>

datatype callback = ReconnectCallback | RelaunchCallback

text \<open>Console lines, one constructor per message of the source, with its interpolated values.\<close>

datatype log_line =
    StartingNodeHelper string
  | MissingEnvFile
  | CreateEnvHint
  | StartingPythonBackend string string
  | PythonStdout string
  | PythonStderr string
  | PythonExited "int option"
  | ConnectingToWebSocket string nat
  | WebSocketConnected
  | ErrorParsingMessage js_error
  | WebSocketDisconnected
  | WebSocketError string
  | FailedToCreateWebSocket
  | SchedulingReconnect nat nat
  | StoppingNodeHelper string

record spawn_env =
  GEMINI_VIDEO_MODE :: string
  GEMINI_CAMERA_INDEX :: int
  GEMINI_HEADLESS :: string

datatype payload =
    ConnectionStatus bool
  | WaveformData "json option"

text \<open>
  What a callback does to the outside world, in program order. \<open>Spawn\<close> carries the
  executable, the arguments, the working directory and the variables added to
  \<^verbatim>\<open>process.env\<close> (\<open>GEMINI_CAMERA_INDEX\<close> is the number that \<^verbatim>\<open>String\<close> renders);
  \<open>WsSendConfig\<close> is the handshake frame with \<^verbatim>\<open>updateInterval\<close> and \<^verbatim>\<open>animationSpeed\<close>.
\<close>

datatype effect =
    ConsoleLog log_line
  | ConsoleError log_line
  | SendSocketNotification string payload
  | Spawn string "string list" string spawn_env
  | Kill
  | NewWebSocket string nat
  | WsSendConfig nat real
  | WsClose
  | SetTimeout callback nat
  | ClearTimeout callback

record outcome =
  state :: helper
  effects :: "effect list"
  thrown :: "js_error option"

text \<open>
  What the helper reads from its surroundings: \<^verbatim>\<open>__dirname\<close>, \<^verbatim>\<open>fs.existsSync\<close>, whether
  the socket held in \<^verbatim>\<open>this.ws\<close> has \<^verbatim>\<open>readyState === WebSocket.OPEN\<close>, and whether the
  \<^verbatim>\<open>WebSocket\<close> constructor throws.
\<close>

record env =
  dirname :: string
  existsSync :: "string \<Rightarrow> bool"
  ws_is_open :: bool
  ws_ctor_throws :: bool

text \<open>\<^verbatim>\<open>path.join\<close> on segments that need no normalisation.\<close>

fun path_join :: "string list \<Rightarrow> string" where
  "path_join [] = ''.''"
| "path_join [p] = p"
| "path_join (p # q # ps) = p @ ''/'' @ path_join (q # ps)"

definition start :: "helper \<Rightarrow> outcome" where
  "start s =
     \<lparr> state = s\<lparr> config := None, ws := None, pythonProcess := None,
                   reconnectTimer := None, reconnectAttempts := 0 \<rparr>,
       effects = [ConsoleLog (StartingNodeHelper (name s))],
       thrown = None \<rparr>"

definition startPythonBackend :: "env \<Rightarrow> helper \<Rightarrow> outcome" where
  "startPythonBackend e s =
     (if pythonProcess s \<noteq> None then \<lparr> state = s, effects = [], thrown = None \<rparr>
      else
        let pythonScript = path_join [dirname e, ''python-backend'', ''gemini_waveform_bridge.py''];
            pythonPath = path_join [dirname e, ''python-backend'', ''venv'', ''bin'', ''python''];
            pythonExecutable = (if existsSync e pythonPath then pythonPath else ''python3'');
            envPath = path_join [dirname e, ''python-backend'', ''.env'']
        in
          if \<not> existsSync e envPath then
            \<lparr> state = s,
              effects = [ConsoleError MissingEnvFile, ConsoleError CreateEnvHint],
              thrown = None \<rparr>
          else
            (case config s of
               None \<Rightarrow>
                 \<lparr> state = s,
                   effects = [ConsoleLog (StartingPythonBackend pythonExecutable pythonScript)],
                   thrown = Some TypeError \<rparr>
             | Some c \<Rightarrow>
                 let envVars =
                       \<lparr> GEMINI_VIDEO_MODE =
                           (case videoMode c of
                              None \<Rightarrow> ''camera''
                            | Some m \<Rightarrow> if m = [] then ''camera'' else m),
                         GEMINI_CAMERA_INDEX = (case cameraIndex c of None \<Rightarrow> 0 | Some i \<Rightarrow> i),
                         GEMINI_HEADLESS = ''1'' \<rparr>
                 in
                   \<lparr> state = s\<lparr> pythonProcess := Some ChildProcess \<rparr>,
                     effects =
                       [ConsoleLog (StartingPythonBackend pythonExecutable pythonScript),
                        Spawn pythonExecutable [pythonScript]
                          (path_join [dirname e, ''python-backend'']) envVars],
                     thrown = None \<rparr>))"

text \<open>The listeners on the child process.\<close>

definition pythonProcess_on_stdout :: "string \<Rightarrow> helper \<Rightarrow> outcome" where
  "pythonProcess_on_stdout d s =
     \<lparr> state = s, effects = [ConsoleLog (PythonStdout d)], thrown = None \<rparr>"

definition pythonProcess_on_stderr :: "string \<Rightarrow> helper \<Rightarrow> outcome" where
  "pythonProcess_on_stderr d s =
     \<lparr> state = s, effects = [ConsoleError (PythonStderr d)], thrown = None \<rparr>"

definition pythonProcess_on_close :: "int option \<Rightarrow> helper \<Rightarrow> outcome" where
  "pythonProcess_on_close code s =
     \<lparr> state = s\<lparr> pythonProcess := None \<rparr>,
       effects = [ConsoleLog (PythonExited code), SetTimeout RelaunchCallback 5000],
       thrown = None \<rparr>"

text \<open>The callback of the 5000 ms timer set by the \<^verbatim>\<open>close\<close> listener.\<close>

definition relaunch_timeout :: "env \<Rightarrow> helper \<Rightarrow> outcome" where
  "relaunch_timeout e s =
     (if config s \<noteq> None then startPythonBackend e s
      else \<lparr> state = s, effects = [], thrown = None \<rparr>)"

definition scheduleReconnect :: "helper \<Rightarrow> outcome" where
  "scheduleReconnect s =
     (let cleared = (if reconnectTimer s \<noteq> None then [ClearTimeout ReconnectCallback] else []);
          attempts = reconnectAttempts s + 1;
          delay = min (1000 * 2 ^ attempts) 30000
      in
        \<lparr> state = s\<lparr> reconnectAttempts := attempts, reconnectTimer := Some Timeout \<rparr>,
          effects = cleared @
            [ConsoleLog (SchedulingReconnect delay attempts),
             SetTimeout ReconnectCallback delay],
          thrown = None \<rparr>)"

definition connectWebSocket :: "env \<Rightarrow> helper \<Rightarrow> outcome" where
  "connectWebSocket e s =
     (if ws s \<noteq> None \<and> ws_is_open e then \<lparr> state = s, effects = [], thrown = None \<rparr>
      else
        (case config s of
           None \<Rightarrow> \<lparr> state = s, effects = [], thrown = Some TypeError \<rparr>
         | Some c \<Rightarrow>
             let connecting = ConsoleLog (ConnectingToWebSocket (pythonHost c) (pythonPort c)) in
               if ws_ctor_throws e then
                 let r = scheduleReconnect s in
                   \<lparr> state = state r,
                     effects = [connecting, ConsoleError FailedToCreateWebSocket] @ effects r,
                     thrown = thrown r \<rparr>
               else
                 \<lparr> state = s\<lparr> ws := Some WebSocket \<rparr>,
                   effects = [connecting, NewWebSocket (pythonHost c) (pythonPort c)],
                   thrown = None \<rparr>))"

text \<open>The callback of the reconnect timer.\<close>

definition reconnect_timeout :: "env \<Rightarrow> helper \<Rightarrow> outcome" where
  "reconnect_timeout e s = connectWebSocket e s"

text \<open>
  The listeners on the socket. \<open>ws_on_open\<close> ends with \<^verbatim>\<open>this.ws.send(...)\<close> reading
  \<^verbatim>\<open>this.config\<close>: with either of them \<^verbatim>\<open>null\<close> that statement throws, after the counter
  was reset and the status sent.
\<close>

definition ws_on_open :: "helper \<Rightarrow> outcome" where
  "ws_on_open s =
     (let s' = s\<lparr> reconnectAttempts := 0 \<rparr>;
          done = [ConsoleLog WebSocketConnected,
                  SendSocketNotification ''CONNECTION_STATUS'' (ConnectionStatus True)]
      in
        (case (ws s', config s') of
           (Some w, Some c) \<Rightarrow>
             \<lparr> state = s',
               effects = done @ [WsSendConfig (updateInterval c) (animationSpeed c)],
               thrown = None \<rparr>
         | _ \<Rightarrow> \<lparr> state = s', effects = done, thrown = Some TypeError \<rparr>))"

text \<open>
  The body of the \<^verbatim>\<open>try\<close> block of the \<^verbatim>\<open>message\<close> listener. \<^verbatim>\<open>JSON.parse\<close> is the
  parameter \<open>parse\<close>: \<open>None\<close> when it throws a SyntaxError.
\<close>

definition message_try :: "(string \<Rightarrow> json option) \<Rightarrow> string \<Rightarrow> js_error + effect list" where
  "message_try parse d =
     (case parse d of
        None \<Rightarrow> Inl SyntaxError
      | Some message \<Rightarrow>
          (case get_prop message ''type'' of
             Inl err \<Rightarrow> Inl err
           | Inr t \<Rightarrow>
               if t = Some (JStr ''waveform'') then
                 (case get_prop message ''data'' of
                    Inl err \<Rightarrow> Inl err
                  | Inr md \<Rightarrow> Inr [SendSocketNotification ''WAVEFORM_DATA'' (WaveformData md)])
               else Inr []))"

definition ws_on_message :: "(string \<Rightarrow> json option) \<Rightarrow> string \<Rightarrow> helper \<Rightarrow> outcome" where
  "ws_on_message parse d s =
     (case message_try parse d of
        Inl err \<Rightarrow> \<lparr> state = s, effects = [ConsoleError (ErrorParsingMessage err)], thrown = None \<rparr>
      | Inr fx \<Rightarrow> \<lparr> state = s, effects = fx, thrown = None \<rparr>)"

definition ws_on_close :: "helper \<Rightarrow> outcome" where
  "ws_on_close s =
     (let r = scheduleReconnect s in
        \<lparr> state = state r,
          effects = [ConsoleLog WebSocketDisconnected,
                     SendSocketNotification ''CONNECTION_STATUS'' (ConnectionStatus False)]
                    @ effects r,
          thrown = thrown r \<rparr>)"

definition ws_on_error :: "string \<Rightarrow> helper \<Rightarrow> outcome" where
  "ws_on_error msg s =
     \<lparr> state = s,
       effects = [ConsoleError (WebSocketError msg),
                  SendSocketNotification ''CONNECTION_STATUS'' (ConnectionStatus False)],
       thrown = None \<rparr>"

definition socketNotificationReceived :: "env \<Rightarrow> string \<Rightarrow> config \<Rightarrow> helper \<Rightarrow> outcome" where
  "socketNotificationReceived e notification p s =
     (if notification = ''CONFIG'' then
        let r1 = startPythonBackend e (s\<lparr> config := Some p \<rparr>) in
          (case thrown r1 of
             Some err \<Rightarrow> r1
           | None \<Rightarrow>
               let r2 = connectWebSocket e (state r1) in
                 \<lparr> state = state r2, effects = effects r1 @ effects r2, thrown = thrown r2 \<rparr>)
      else \<lparr> state = s, effects = [], thrown = None \<rparr>)"

definition stop :: "helper \<Rightarrow> outcome" where
  "stop s =
     \<lparr> state = s\<lparr> reconnectTimer := None, ws := None, pythonProcess := None \<rparr>,
       effects =
         [ConsoleLog (StoppingNodeHelper (name s))]
         @ (if reconnectTimer s \<noteq> None then [ClearTimeout ReconnectCallback] else [])
         @ (if ws s \<noteq> None then [WsClose] else [])
         @ (if pythonProcess s \<noteq> None then [Kill] else []),
       thrown = None \<rparr>"

text \<open>The helper as \<^verbatim>\<open>start\<close> leaves it.\<close>

definition started :: "string \<Rightarrow> helper" where
  "started n =
     \<lparr> name = n, config = None, ws = None, pythonProcess = None,
       reconnectTimer = None, reconnectAttempts = 0 \<rparr>"

text \<open>The delays of the reconnect timers set by a callback.\<close>

fun scheduled_delays :: "effect list \<Rightarrow> nat list" where
  "scheduled_delays [] = []"
| "scheduled_delays (SetTimeout ReconnectCallback d # fx) = d # scheduled_delays fx"
| "scheduled_delays (x # fx) = scheduled_delays fx"

text \<open>
  A run of \<open>k\<close> consecutive failures: \<^verbatim>\<open>scheduleReconnect\<close> is called \<open>k\<close> times with no
  \<^verbatim>\<open>open\<close> in between; the result lists the delays in the order they were scheduled.
\<close>

fun consecutive_failures :: "nat \<Rightarrow> helper \<Rightarrow> nat list" where
  "consecutive_failures 0 s = []"
| "consecutive_failures (Suc k) s =
     (let r = scheduleReconnect s in
        scheduled_delays (effects r) @ consecutive_failures k (state r))"

subsection \<open>The supervisor's callbacks in the Node event loop\<close>

text \<open>
  The callbacks that touch the child process, in the order Node may deliver them. The
  event loop is the part of the surroundings that decides which callback can run: a child's
  \<^verbatim>\<open>close\<close> event needs a child that was spawned and has not closed yet, a 5000 ms callback
  needs a timer that was set and has not fired; an exception that escapes a callback ends
  the Node process.
\<close>

datatype event =
    Notification string config
  | StopCalled
  | ChildClosed "int option"
  | RelaunchTimerFired

record world =
  helper_of :: helper
  trace :: "effect list"
  children :: nat
  relaunch_timers :: nat
  crashed :: bool

fun account :: "effect \<Rightarrow> world \<Rightarrow> world" where
  "account (Spawn exe args cwd vars) w = w\<lparr> children := children w + 1 \<rparr>"
| "account (SetTimeout RelaunchCallback d) w = w\<lparr> relaunch_timers := relaunch_timers w + 1 \<rparr>"
| "account x w = w"

definition deliver :: "outcome \<Rightarrow> world \<Rightarrow> world" where
  "deliver r w =
     (fold account (effects r) w)
       \<lparr> helper_of := state r, trace := trace w @ effects r, crashed := (thrown r \<noteq> None) \<rparr>"

fun step :: "env \<Rightarrow> event \<Rightarrow> world \<Rightarrow> world option" where
  "step e (Notification n p) w =
     (if crashed w then None
      else Some (deliver (socketNotificationReceived e n p (helper_of w)) w))"
| "step e StopCalled w =
     (if crashed w then None else Some (deliver (stop (helper_of w)) w))"
| "step e (ChildClosed code) w =
     (if crashed w \<or> children w = 0 then None
      else Some (deliver (pythonProcess_on_close code (helper_of w))
                   (w\<lparr> children := children w - 1 \<rparr>)))"
| "step e RelaunchTimerFired w =
     (if crashed w \<or> relaunch_timers w = 0 then None
      else Some (deliver (relaunch_timeout e (helper_of w))
                   (w\<lparr> relaunch_timers := relaunch_timers w - 1 \<rparr>)))"

fun run :: "env \<Rightarrow> event list \<Rightarrow> world \<Rightarrow> world option" where
  "run e [] w = Some w"
| "run e (ev # evs) w = (case step e ev w of None \<Rightarrow> None | Some w' \<Rightarrow> run e evs w')"

definition boot :: "string \<Rightarrow> world" where
  "boot n = \<lparr> helper_of = started n, trace = [], children = 0, relaunch_timers = 0,
              crashed = False \<rparr>"

text \<open>What the helper did after \<^verbatim>\<open>stop\<close> announced itself, and whether it spawned a child.\<close>

fun after_stop :: "effect list \<Rightarrow> effect list" where
  "after_stop [] = []"
| "after_stop (ConsoleLog (StoppingNodeHelper n) # fx) = fx"
| "after_stop (x # fx) = after_stop fx"

fun is_spawn :: "effect \<Rightarrow> bool" where
  "is_spawn (Spawn exe args cwd vars) = True"
| "is_spawn x = False"

section \<open>MMM-GeminiWaveform.js: Smoother, Render Loop and Renderer\<close>

text \<open>
  JavaScript numbers are modelled as reals; rounding is not modelled. The one place where
  the module can leave the finite numbers is the division \<^verbatim>\<open>i / (numPoints - 1)\<close>:
  a zero divisor gives \<^verbatim>\<open>NaN\<close> or an infinity, written \<open>None\<close>, and every sum, product
  and sine of such a value is again not finite.
\<close>

definition js_div :: "real \<Rightarrow> real \<Rightarrow> real option" where
  "js_div a b = (if b = 0 then None else Some (a / b))"

text \<open>
  \<^verbatim>\<open>getDom\<close> assigns \<^verbatim>\<open>this.canvas\<close> and \<^verbatim>\<open>this.ctx\<close> together, so the module holds one
  drawing surface: \<open>ctx\<close> is \<open>None\<close> while \<^verbatim>\<open>this.ctx\<close> is \<^verbatim>\<open>null\<close>, and otherwise carries the
  dimensions of \<^verbatim>\<open>this.canvas\<close> (unsigned integers in the DOM).
\<close>

record canvas =
  canvas_width :: nat
  canvas_height :: nat

record module =
  module_config :: config
  ctx :: "canvas option"
  animationFrame :: "nat option"
  connected :: bool
  wavePhase :: real
  currentAmplitude :: real
  targetAmplitude :: real
  lastDataTime :: int

text \<open>
  The payload of a \<^verbatim>\<open>WAVEFORM_DATA\<close> notification: an object whose \<^verbatim>\<open>amplitude\<close> and
  \<^verbatim>\<open>phase\<close> are numbers or \<^verbatim>\<open>undefined\<close> (\<open>None\<close>), as the wire protocol has them.
\<close>

record waveform_data =
  amplitude :: "real option"
  phase :: "real option"

text \<open>A point of the polyline: \<^verbatim>\<open>{x: x, y: y}\<close>.\<close>

type_synonym point = "real option \<times> real option"

datatype frame_result = NoContext | Drawn "point list" | Raised js_error

definition defaults :: config where
  "defaults =
     \<lparr> width = 300, height = 100, updateInterval = 16, pythonHost = ''localhost'',
       pythonPort = 8765, waveColor = ''#ffffff'', glowColor = ''#ffffff'',
       idleAmplitude = 0.06, animationSpeed = 0.35, showDebug = False,
       videoMode = Some ''camera'', cameraIndex = Some 0 \<rparr>"

text \<open>
  \<^verbatim>\<open>updateWaveformData(data)\<close> at time \<open>now\<close> (\<^verbatim>\<open>Date.now()\<close>). A payload that is
  \<^verbatim>\<open>null\<close> or \<^verbatim>\<open>undefined\<close> (\<open>None\<close>) makes \<^verbatim>\<open>data.amplitude\<close> throw.
\<close>

fun updateWaveformData :: "int \<Rightarrow> waveform_data option \<Rightarrow> module \<Rightarrow> js_error + module" where
  "updateWaveformData now None s = Inl TypeError"
| "updateWaveformData now (Some d) s =
     (let s1 = (case amplitude d of
                  None \<Rightarrow> s
                | Some a \<Rightarrow> s\<lparr> targetAmplitude := a, lastDataTime := now \<rparr>);
          s2 = (case phase d of
                  None \<Rightarrow> s1
                | Some p \<Rightarrow> s1\<lparr> wavePhase := p \<rparr>)
      in Inr s2)"

text \<open>The body of the loop of \<^verbatim>\<open>drawWaveform\<close> for index \<open>i\<close>.\<close>

definition wave_point :: "real \<Rightarrow> real \<Rightarrow> nat \<Rightarrow> nat \<Rightarrow> nat \<Rightarrow> real \<Rightarrow> nat \<Rightarrow> point" where
  "wave_point amp ph w h numPoints margin i =
     (case js_div (real i) (real numPoints - 1) of
        None \<Rightarrow> (None, None)
      | Some t \<Rightarrow>
          let x = margin + t * (real w - 2 * margin);
              w1 = sin (ph + t * 4 * pi) * 0.35;
              w2 = sin (ph * 1.7 + t * 7 * pi) * 0.22;
              w3 = sin (ph * 0.8 + t * 2 * pi) * 0.5;
              wave = (w1 + w2 + w3) * amp;
              y = real h / 2 + wave * real h * 0.28
          in (Some x, Some y))"

text \<open>The \<^verbatim>\<open>points\<close> array that \<^verbatim>\<open>drawWaveform(amplitude)\<close> builds, with \<open>ph\<close> the
  value of \<^verbatim>\<open>this.wavePhase\<close>.\<close>

definition drawWaveform_points :: "real \<Rightarrow> real \<Rightarrow> canvas \<Rightarrow> point list" where
  "drawWaveform_points amp ph c =
     (let w = canvas_width c;
          h = canvas_height c;
          numPoints = min 200 w;
          margin = max 12 (6 + amp * 6)
      in map (wave_point amp ph w h numPoints margin) [0..<numPoints])"

text \<open>
  \<^verbatim>\<open>drawWaveform\<close>: the strokes on the canvas are not modelled, only the array they
  follow. With no point at all, \<^verbatim>\<open>points[0].x\<close> throws.
\<close>

definition drawWaveform :: "real \<Rightarrow> real \<Rightarrow> canvas \<Rightarrow> js_error + point list" where
  "drawWaveform amp ph c =
     (let points = drawWaveform_points amp ph c in
        if points = [] then Inl TypeError else Inr points)"

text \<open>
  One call of \<^verbatim>\<open>animateWaveform\<close> at time \<open>now\<close>; \<open>frame\<close> is the handle that
  \<^verbatim>\<open>requestAnimationFrame\<close> returns.
\<close>

definition animateWaveform :: "int \<Rightarrow> nat \<Rightarrow> module \<Rightarrow> module \<times> frame_result" where
  "animateWaveform now frame s =
     (case ctx s of
        None \<Rightarrow> (s\<lparr> animationFrame := Some frame \<rparr>, NoContext)
      | Some c \<Rightarrow>
          let current = currentAmplitude s + (targetAmplitude s - currentAmplitude s) * 0.18;
              timeSinceData = now - lastDataTime s;
              idleAmp = idleAmplitude (module_config s) * (0.6 + 0.4 * sin (wavePhase s * 0.6));
              effectiveAmplitude = (if timeSinceData > 250 then max current idleAmp else current);
              target = (if timeSinceData > 250 then targetAmplitude s * 0.96
                        else targetAmplitude s);
              ph = wavePhase s + animationSpeed (module_config s);
              s' = s\<lparr> currentAmplitude := current, targetAmplitude := target, wavePhase := ph \<rparr>
          in
            (case drawWaveform effectiveAmplitude ph c of
               Inl err \<Rightarrow> (s', Raised err)
             | Inr points \<Rightarrow> (s'\<lparr> animationFrame := Some frame \<rparr>, Drawn points)))"

text \<open>The module as \<^verbatim>\<open>start\<close> leaves it at time \<open>now\<close>: no canvas yet, one frame requested.\<close>

definition module_started :: "int \<Rightarrow> nat \<Rightarrow> config \<Rightarrow> module" where
  "module_started now frame cfg =
     \<lparr> module_config = cfg, ctx = None, animationFrame = Some frame, connected = False,
       wavePhase = 0, currentAmplitude = 0, targetAmplitude = 0, lastDataTime = now \<rparr>"

definition getDom :: "module \<Rightarrow> module" where
  "getDom s =
     s\<lparr> ctx := Some \<lparr> canvas_width = width (module_config s),
                      canvas_height = height (module_config s) \<rparr> \<rparr>"

text \<open>
  What reaches the Smoother, in order: a \<^verbatim>\<open>WAVEFORM_DATA\<close> notification or a display
  frame, each with the clock reading at that moment. An exception in a browser callback
  leaves the fields as they were when it was thrown.
\<close>

datatype browser_event =
    WaveformDataReceived int "waveform_data option"
  | FrameRequested int nat

fun smoother_step :: "browser_event \<Rightarrow> module \<Rightarrow> module" where
  "smoother_step (WaveformDataReceived now d) s =
     (case updateWaveformData now d s of Inl err \<Rightarrow> s | Inr s' \<Rightarrow> s')"
| "smoother_step (FrameRequested now frame) s = fst (animateWaveform now frame s)"

definition smoother_run :: "browser_event list \<Rightarrow> module \<Rightarrow> module" where
  "smoother_run evs s = fold smoother_step evs s"

text \<open>The amplitude samples among the events, and the largest seen (0 before the first).\<close>

fun sample_values :: "browser_event list \<Rightarrow> real list" where
  "sample_values [] = []"
| "sample_values (WaveformDataReceived now (Some d) # evs) =
     (case amplitude d of None \<Rightarrow> sample_values evs | Some a \<Rightarrow> a # sample_values evs)"
| "sample_values (ev # evs) = sample_values evs"

definition max_sample :: "browser_event list \<Rightarrow> real" where
  "max_sample evs = fold max (sample_values evs) 0"

subsection \<open>The renderer as the specification words it\<close>

text \<open>
  For sample index \<open>i\<close> of \<open>n = min 200 width\<close>, with \<open>t = i / (n - 1)\<close> and
  \<open>margin = max 12 (6 + amplitude * 6)\<close>:
  \<open>x = margin + t * (width - 2 * margin)\<close> and
  \<open>y = height / 2 + w * amplitude * height * 0.28\<close>, where \<open>w\<close> is the composite of the
  three harmonics.
\<close>

definition spec_point :: "real \<Rightarrow> real \<Rightarrow> nat \<Rightarrow> nat \<Rightarrow> nat \<Rightarrow> real \<times> real" where
  "spec_point amp ph w h i =
     (let n = min 200 w;
          margin = max 12 (6 + amp * 6);
          t = real i / (real n - 1);
          x = margin + t * (real w - 2 * margin);
          wv = 0.35 * sin (ph + t * (4 * pi)) + 0.22 * sin (1.7 * ph + t * (7 * pi))
               + 0.5 * sin (0.8 * ph + t * (2 * pi));
          y = real h / 2 + wv * amp * real h * 0.28
      in (x, y))"

definition spec_points :: "real \<Rightarrow> real \<Rightarrow> nat \<Rightarrow> nat \<Rightarrow> (real \<times> real) list" where
  "spec_points amp ph w h = map (spec_point amp ph w h) [0..<min 200 w]"

section \<open>Vocabulary for the properties\<close>

text \<open>A parsed frame is a waveform message when it is an object whose \<^verbatim>\<open>type\<close> is the
  string \<^verbatim>\<open>waveform\<close>; its data is its \<^verbatim>\<open>data\<close> property.\<close>

fun is_waveform :: "json \<Rightarrow> bool" where
  "is_waveform (JObj kvs) = (map_of kvs ''type'' = Some (JStr ''waveform''))"
| "is_waveform v = False"

fun data_of :: "json \<Rightarrow> json option" where
  "data_of (JObj kvs) = map_of kvs ''data''"
| "data_of v = None"

fun is_console_error :: "effect \<Rightarrow> bool" where
  "is_console_error (ConsoleError l) = True"
| "is_console_error x = False"

text \<open>Both amplitudes of the Smoother lie between 0 and \<open>M\<close>.\<close>

definition amp_bounded :: "real \<Rightarrow> module \<Rightarrow> bool" where
  "amp_bounded M s \<longleftrightarrow>
     0 \<le> targetAmplitude s \<and> targetAmplitude s \<le> M
     \<and> 0 \<le> currentAmplitude s \<and> currentAmplitude s \<le> M"

text \<open>
  Concrete surroundings for the examples: a \<^verbatim>\<open>JSON.parse\<close> whose result on the frame at
  hand is known, an installation with no file at all, and one where every file the helper
  looks for exists.
\<close>

definition parses_to :: "json option \<Rightarrow> string \<Rightarrow> json option" where
  "parses_to v d = v"

definition bare_install :: env where
  "bare_install =
     \<lparr> dirname = ''/opt/mm/modules/MMM-GeminiWaveform'', existsSync = (\<lambda>p. False),
       ws_is_open = False, ws_ctor_throws = False \<rparr>"

definition full_install :: env where
  "full_install =
     \<lparr> dirname = ''/opt/mm/modules/MMM-GeminiWaveform'', existsSync = (\<lambda>p. True),
       ws_is_open = False, ws_ctor_throws = False \<rparr>"

section \<open>Reconnect backoff\<close>

lemma scheduleReconnect_delay:
  "scheduled_delays (effects (scheduleReconnect s)) =
     [min (1000 * 2 ^ (reconnectAttempts s + 1)) 30000]"
  by (simp add: scheduleReconnect_def Let_def)

lemma scheduleReconnect_attempts:
  "reconnectAttempts (state (scheduleReconnect s)) = reconnectAttempts s + 1"
  by (simp add: scheduleReconnect_def Let_def)

lemma consecutive_failures_from:
  "consecutive_failures n s =
     map (\<lambda>k. min (1000 * 2 ^ (reconnectAttempts s + k)) 30000) [1..<Suc n]"
proof (induction n arbitrary: s)
  case 0
  show ?case by simp
next
  case (Suc n)
  have split: "[1..<Suc (Suc n)] = 1 # map Suc [1..<Suc n]"
  proof -
    have "[1..<Suc (Suc n)] = 1 # [Suc 1..<Suc (Suc n)]"
      by (rule upt_conv_Cons) simp
    then show ?thesis
      by (simp only: map_Suc_upt)
  qed
  have "consecutive_failures (Suc n) s =
      min (1000 * 2 ^ (reconnectAttempts s + 1)) 30000
        # map (\<lambda>k. min (1000 * 2 ^ (reconnectAttempts s + 1 + k)) 30000) [1..<Suc n]"
    by (simp only: consecutive_failures.simps Let_def scheduleReconnect_delay
        scheduleReconnect_attempts Suc.IH append_Cons append_Nil)
  also have "\<dots> = map (\<lambda>k. min (1000 * 2 ^ (reconnectAttempts s + k)) 30000) [1..<Suc (Suc n)]"
    by (subst split) (simp add: comp_def del: upt_Suc)
  finally show ?case .
qed

text \<open>
  C1. Starting with the attempt counter at 0, the \<open>k\<close>-th consecutive call of
  \<^verbatim>\<open>scheduleReconnect\<close> (\<open>k = 1, 2, 3, ...\<close>) sets the reconnect timer to
  \<open>min (1000 * 2 ^ k) 30000\<close> milliseconds, so the delays begin
  2000, 4000, 8000, 16000, 30000, 30000; and the \<^verbatim>\<open>open\<close> listener puts the counter
  back to 0 whatever it was.
\<close>

theorem reconnect_backoff_sequence:
  assumes "reconnectAttempts s = 0"
  shows "consecutive_failures n s = map (\<lambda>k. min (1000 * 2 ^ k) 30000) [1..<Suc n]
       \<and> consecutive_failures 6 s = [2000, 4000, 8000, 16000, 30000, 30000]
       \<and> reconnectAttempts (state (ws_on_open s')) = 0"
proof -
  have every: "consecutive_failures m s = map (\<lambda>k. min (1000 * 2 ^ k) 30000) [1..<Suc m]" for m
    using assms by (simp add: consecutive_failures_from)
  have "[1..<Suc 6] = [1, 2, 3, 4, 5, 6::nat]"
    by (simp add: upt_rec)
  then have six: "consecutive_failures 6 s = [2000, 4000, 8000, 16000, 30000, 30000]"
    using every [of 6] by simp
  have reset: "reconnectAttempts (state (ws_on_open s')) = 0"
    by (simp add: ws_on_open_def Let_def split: option.split)
  from every six reset show ?thesis by blast
qed

theorem reconnect_backoff_sequence_witness:
  "reconnectAttempts (started ''MMM-GeminiWaveform'') = 0
   \<and> consecutive_failures 3 (started ''MMM-GeminiWaveform'') = [2000, 4000, 8000]
   \<and> consecutive_failures 6 (started ''MMM-GeminiWaveform'')
       = [2000, 4000, 8000, 16000, 30000, 30000]
   \<and> reconnectAttempts
       (state (ws_on_open (state (scheduleReconnect (started ''MMM-GeminiWaveform''))))) = 0"
proof -
  have h: "reconnectAttempts (started ''MMM-GeminiWaveform'') = 0"
    by (simp add: started_def)
  have "[1..<Suc 3] = [1, 2, 3::nat]"
    by (simp add: upt_rec)
  then show ?thesis
    using h reconnect_backoff_sequence [OF h, of 3]
    by simp
qed

section \<open>Inbound messages\<close>

lemma message_try_cases:
  "message_try parse d =
     (case parse d of
        None \<Rightarrow> Inl SyntaxError
      | Some m \<Rightarrow>
          if m = JNull then Inl TypeError
          else if is_waveform m
            then Inr [SendSocketNotification ''WAVEFORM_DATA'' (WaveformData (data_of m))]
            else Inr [])"
proof (cases "parse d")
  case None
  then show ?thesis by (simp add: message_try_def)
next
  case (Some m)
  then show ?thesis by (cases m) (simp_all add: message_try_def)
qed

lemma is_waveform_not_null: "is_waveform m \<Longrightarrow> m \<noteq> JNull"
  by (cases m) simp_all

text \<open>
  C5. For every inbound frame, the \<^verbatim>\<open>message\<close> listener forwards the message's data as a
  \<^verbatim>\<open>WAVEFORM_DATA\<close> notification if and only if the frame parses as JSON to a value whose
  \<^verbatim>\<open>type\<close> is \<^verbatim>\<open>waveform\<close>, and then that notification is all it does. A frame that does not
  parse is logged and dropped; a frame of any other type is dropped (\<^verbatim>\<open>null\<close> with a log
  line, since reading its type throws inside the \<^verbatim>\<open>try\<close>). In every case the helper's
  fields are unchanged, the socket is not closed and no exception leaves the listener.
\<close>

theorem message_listener_forwards_only_waveform:
  "state (ws_on_message parse frame s) = s
   \<and> thrown (ws_on_message parse frame s) = None
   \<and> WsClose \<notin> set (effects (ws_on_message parse frame s))
   \<and> ((\<exists>p. SendSocketNotification ''WAVEFORM_DATA'' p \<in> set (effects (ws_on_message parse frame s)))
        \<longleftrightarrow> (\<exists>m. parse frame = Some m \<and> is_waveform m))
   \<and> (\<forall>m. parse frame = Some m \<and> is_waveform m \<longrightarrow>
          effects (ws_on_message parse frame s)
            = [SendSocketNotification ''WAVEFORM_DATA'' (WaveformData (data_of m))])
   \<and> (parse frame = None \<longrightarrow>
          effects (ws_on_message parse frame s) = [ConsoleError (ErrorParsingMessage SyntaxError)])
   \<and> (\<forall>m. parse frame = Some m \<and> \<not> is_waveform m \<longrightarrow>
          effects (ws_on_message parse frame s)
            = (if m = JNull then [ConsoleError (ErrorParsingMessage TypeError)] else []))"
  using is_waveform_not_null
  by (auto simp: ws_on_message_def message_try_cases split: option.splits)

theorem message_listener_forwards_only_waveform_witness:
  "effects (ws_on_message
      (parses_to (Some (JObj [(''type'', JStr ''waveform''),
                              (''data'', JObj [(''amplitude'', JNum 0.8), (''phase'', JNum 1.57)])])))
      ''frame'' (started ''MMM-GeminiWaveform''))
     = [SendSocketNotification ''WAVEFORM_DATA''
          (WaveformData (Some (JObj [(''amplitude'', JNum 0.8), (''phase'', JNum 1.57)])))]
   \<and> effects (ws_on_message (parses_to None) ''{oops'' (started ''MMM-GeminiWaveform''))
     = [ConsoleError (ErrorParsingMessage SyntaxError)]
   \<and> effects (ws_on_message (parses_to (Some (JObj [(''type'', JStr ''config'')]))) ''frame''
        (started ''MMM-GeminiWaveform'')) = []"
  using
    message_listener_forwards_only_waveform
      [of "parses_to (Some (JObj [(''type'', JStr ''waveform''),
                              (''data'', JObj [(''amplitude'', JNum 0.8), (''phase'', JNum 1.57)])]))"
          "''frame''" "started ''MMM-GeminiWaveform''"]
    message_listener_forwards_only_waveform
      [of "parses_to None" "''{oops''" "started ''MMM-GeminiWaveform''"]
    message_listener_forwards_only_waveform
      [of "parses_to (Some (JObj [(''type'', JStr ''config'')]))" "''frame''"
          "started ''MMM-GeminiWaveform''"]
  by (simp add: parses_to_def)

text \<open>
  C3, as the code has it. Nothing clamps the amplitude: the \<^verbatim>\<open>message\<close> listener forwards
  the \<^verbatim>\<open>data\<close> property of a waveform message as it was parsed, and
  \<^verbatim>\<open>updateWaveformData\<close> stores a defined amplitude as \<^verbatim>\<open>targetAmplitude\<close> exactly as
  received, whatever its value.
\<close>

theorem amplitude_stored_as_received:
  assumes "parse frame = Some (JObj kvs)"
    and "map_of kvs ''type'' = Some (JStr ''waveform'')"
  shows "effects (ws_on_message parse frame h)
           = [SendSocketNotification ''WAVEFORM_DATA'' (WaveformData (map_of kvs ''data''))]
       \<and> (\<exists>s'. updateWaveformData now (Some (d\<lparr> amplitude := Some a \<rparr>)) s = Inr s'
                \<and> targetAmplitude s' = a)"
  using assms
  by (cases "phase d") (simp_all add: ws_on_message_def message_try_def Let_def)

theorem amplitude_stored_as_received_witness:
  "effects (ws_on_message
      (parses_to (Some (JObj [(''type'', JStr ''waveform''),
                              (''data'', JObj [(''amplitude'', JNum (-3))])])))
      ''frame'' (started ''MMM-GeminiWaveform''))
     = [SendSocketNotification ''WAVEFORM_DATA''
          (WaveformData (Some (JObj [(''amplitude'', JNum (-3))])))]
   \<and> (\<exists>s'. updateWaveformData 1000 (Some \<lparr> amplitude = Some (-3), phase = None \<rparr>)
               (module_started 0 1 defaults) = Inr s'
            \<and> targetAmplitude s' = -3)"
proof -
  have h1: "parses_to (Some (JObj [(''type'', JStr ''waveform''),
                              (''data'', JObj [(''amplitude'', JNum (-3))])])) ''frame''
      = Some (JObj [(''type'', JStr ''waveform''), (''data'', JObj [(''amplitude'', JNum (-3))])])"
    by (simp add: parses_to_def)
  have h2: "map_of [(''type'', JStr ''waveform''), (''data'', JObj [(''amplitude'', JNum (-3))])]
      ''type'' = Some (JStr ''waveform'')"
    by simp
  show ?thesis
    using h1 h2
      amplitude_stored_as_received
        [where parse = "parses_to (Some (JObj [(''type'', JStr ''waveform''),
                              (''data'', JObj [(''amplitude'', JNum (-3))])]))"
           and frame = "''frame''"
           and kvs = "[(''type'', JStr ''waveform''), (''data'', JObj [(''amplitude'', JNum (-3))])]"
           and h = "started ''MMM-GeminiWaveform''"
           and now = 1000
           and d = "\<lparr> amplitude = None, phase = None \<rparr>"
           and a = "-3"
           and s = "module_started 0 1 defaults"]
    by simp
qed

text \<open>
  A waveform message with amplitude 2.5 travels through the listener unchanged, and
  \<^verbatim>\<open>updateWaveformData\<close> leaves 2.5, which is above 1, in \<^verbatim>\<open>targetAmplitude\<close>.
\<close>

theorem out_of_range_amplitude_stored_counterexample:
  "effects (ws_on_message
      (parses_to (Some (JObj [(''type'', JStr ''waveform''),
                              (''data'', JObj [(''amplitude'', JNum 2.5), (''phase'', JNum 0)])])))
      ''frame'' (started ''MMM-GeminiWaveform''))
     = [SendSocketNotification ''WAVEFORM_DATA''
          (WaveformData (Some (JObj [(''amplitude'', JNum 2.5), (''phase'', JNum 0)])))]
   \<and> updateWaveformData 1000 (Some \<lparr> amplitude = Some 2.5, phase = Some 0 \<rparr>)
         (module_started 0 1 defaults)
     = Inr ((module_started 0 1 defaults)
              \<lparr> targetAmplitude := 2.5, lastDataTime := 1000, wavePhase := 0 \<rparr>)
   \<and> \<not> targetAmplitude ((module_started 0 1 defaults)
              \<lparr> targetAmplitude := 2.5, lastDataTime := 1000, wavePhase := 0 \<rparr>) \<le> 1"
  by (simp add: ws_on_message_def message_try_def parses_to_def module_started_def)

section \<open>Close and error events\<close>

text \<open>
  C7, as the code has it. The \<^verbatim>\<open>close\<close> listener reports the disconnection and calls
  \<^verbatim>\<open>scheduleReconnect\<close>, so it sets the reconnect timer. The \<^verbatim>\<open>error\<close> listener logs
  the error and reports the disconnection, and does nothing else: it sets no timer and
  leaves the helper's fields as they were.
\<close>

theorem close_reconnects_error_only_reports:
  "effects (ws_on_close s)
     = [ConsoleLog WebSocketDisconnected,
        SendSocketNotification ''CONNECTION_STATUS'' (ConnectionStatus False)]
       @ effects (scheduleReconnect s)
   \<and> state (ws_on_close s) = state (scheduleReconnect s)
   \<and> scheduled_delays (effects (ws_on_close s))
     = [min (1000 * 2 ^ (reconnectAttempts s + 1)) 30000]
   \<and> reconnectTimer (state (ws_on_close s)) = Some Timeout
   \<and> effects (ws_on_error msg s)
     = [ConsoleError (WebSocketError msg),
        SendSocketNotification ''CONNECTION_STATUS'' (ConnectionStatus False)]
   \<and> state (ws_on_error msg s) = s
   \<and> scheduled_delays (effects (ws_on_error msg s)) = []"
  by (simp add: ws_on_error_def ws_on_close_def scheduleReconnect_def Let_def)

text \<open>
  On a freshly started helper an \<^verbatim>\<open>error\<close> event reports the disconnection and schedules
  no reconnect, while a \<^verbatim>\<open>close\<close> event schedules one after 2000 ms.
\<close>

theorem error_listener_schedules_nothing_counterexample:
  "effects (ws_on_error ''connect ECONNREFUSED'' (started ''MMM-GeminiWaveform''))
     = [ConsoleError (WebSocketError ''connect ECONNREFUSED''),
        SendSocketNotification ''CONNECTION_STATUS'' (ConnectionStatus False)]
   \<and> reconnectTimer (state (ws_on_error ''connect ECONNREFUSED'' (started ''MMM-GeminiWaveform'')))
     = None
   \<and> scheduled_delays (effects (ws_on_error ''connect ECONNREFUSED'' (started ''MMM-GeminiWaveform'')))
     = []
   \<and> scheduled_delays (effects (ws_on_close (started ''MMM-GeminiWaveform''))) = [2000]"
  by (simp add: ws_on_error_def ws_on_close_def scheduleReconnect_def started_def Let_def)

section \<open>Backend Supervisor\<close>

text \<open>
  C6, as the code has it. When no child is running and the \<^verbatim>\<open>.env\<close> file is absent,
  \<^verbatim>\<open>startPythonBackend\<close> spawns nothing, leaves every field of the helper (the process
  handle included) as it was, sets no timer and throws nothing; it writes two lines to
  \<^verbatim>\<open>console.error\<close>: the missing-file error and the hint how to create the file. The same
  holds when the attempt is the relaunch made by the 5000 ms callback.
\<close>

theorem missing_env_file_aborts_launch:
  assumes "pythonProcess s = None"
    and "\<not> existsSync e (path_join [dirname e, ''python-backend'', ''.env''])"
  shows "state (startPythonBackend e s) = s
       \<and> pythonProcess (state (startPythonBackend e s)) = None
       \<and> effects (startPythonBackend e s) = [ConsoleError MissingEnvFile, ConsoleError CreateEnvHint]
       \<and> length (filter is_console_error (effects (startPythonBackend e s))) = 2
       \<and> \<not> list_ex is_spawn (effects (startPythonBackend e s))
       \<and> SetTimeout cb d \<notin> set (effects (startPythonBackend e s))
       \<and> thrown (startPythonBackend e s) = None
       \<and> state (relaunch_timeout e s) = s
       \<and> \<not> list_ex is_spawn (effects (relaunch_timeout e s))
       \<and> SetTimeout cb d \<notin> set (effects (relaunch_timeout e s))"
  using assms by (simp add: startPythonBackend_def relaunch_timeout_def Let_def)

theorem missing_env_file_aborts_launch_witness:
  "state (startPythonBackend bare_install (started ''MMM-GeminiWaveform''))
     = started ''MMM-GeminiWaveform''
   \<and> length (filter is_console_error
         (effects (startPythonBackend bare_install (started ''MMM-GeminiWaveform'')))) = 2
   \<and> \<not> list_ex is_spawn (effects (startPythonBackend bare_install (started ''MMM-GeminiWaveform'')))"
proof -
  have h1: "pythonProcess (started ''MMM-GeminiWaveform'') = None"
    by (simp add: started_def)
  have h2: "\<not> existsSync bare_install (path_join [dirname bare_install, ''python-backend'', ''.env''])"
    by (simp add: bare_install_def)
  show ?thesis
    using missing_env_file_aborts_launch [OF h1 h2] by simp
qed

text \<open>
  On an installation without the \<^verbatim>\<open>.env\<close> file a launch attempt writes two error entries,
  not one.
\<close>

theorem missing_env_file_two_error_lines_counterexample:
  "effects (startPythonBackend bare_install (started ''MMM-GeminiWaveform''))
     = [ConsoleError MissingEnvFile, ConsoleError CreateEnvHint]
   \<and> length (filter is_console_error
         (effects (startPythonBackend bare_install (started ''MMM-GeminiWaveform'')))) \<noteq> 1"
  by (simp add: startPythonBackend_def bare_install_def started_def Let_def)

text \<open>
  Whatever the helper's fields, once a configuration has arrived and the \<^verbatim>\<open>.env\<close> file
  exists: \<^verbatim>\<open>stop\<close>, then the child's \<^verbatim>\<open>close\<close> event, then the 5000 ms callback end with a
  new child spawned.
\<close>

lemma relaunch_survives_stop:
  assumes "config s = Some c"
    and "existsSync e (path_join [dirname e, ''python-backend'', ''.env''])"
  shows "list_ex is_spawn
           (effects (relaunch_timeout e (state (pythonProcess_on_close code (state (stop s))))))
       \<and> pythonProcess
           (state (relaunch_timeout e (state (pythonProcess_on_close code (state (stop s))))))
         = Some ChildProcess"
  using assms
  by (simp add: relaunch_timeout_def startPythonBackend_def pythonProcess_on_close_def stop_def
      Let_def)

text \<open>
  C8 at a concrete run. The helper receives \<^verbatim>\<open>CONFIG\<close> on an installation with the
  \<^verbatim>\<open>.env\<close> file and spawns the backend; \<^verbatim>\<open>stop\<close> closes the socket and kills the child;
  the killed child's \<^verbatim>\<open>close\<close> event sets the 5000 ms timer; the timer fires, finds
  \<^verbatim>\<open>this.config\<close> still set, and spawns the backend again. The first component is everything
  the helper did after \<^verbatim>\<open>stop\<close> announced itself; the second and third say that at the end
  a child handle is held and the configuration is still set.
\<close>

theorem stop_then_child_exit_relaunches:
  "map_option (\<lambda>w. (after_stop (trace w), pythonProcess (helper_of w), config (helper_of w) \<noteq> None))
     (run full_install
        [Notification ''CONFIG'' defaults, StopCalled, ChildClosed None, RelaunchTimerFired]
        (boot ''MMM-GeminiWaveform''))
   = Some
       ([WsClose, Kill,
         ConsoleLog (PythonExited None), SetTimeout RelaunchCallback 5000,
         ConsoleLog (StartingPythonBackend
           ''/opt/mm/modules/MMM-GeminiWaveform/python-backend/venv/bin/python''
           ''/opt/mm/modules/MMM-GeminiWaveform/python-backend/gemini_waveform_bridge.py''),
         Spawn ''/opt/mm/modules/MMM-GeminiWaveform/python-backend/venv/bin/python''
           [''/opt/mm/modules/MMM-GeminiWaveform/python-backend/gemini_waveform_bridge.py'']
           ''/opt/mm/modules/MMM-GeminiWaveform/python-backend''
           \<lparr> GEMINI_VIDEO_MODE = ''camera'', GEMINI_CAMERA_INDEX = 0, GEMINI_HEADLESS = ''1'' \<rparr>],
        Some ChildProcess, True)"
  by (simp add: boot_def started_def full_install_def defaults_def deliver_def
      socketNotificationReceived_def startPythonBackend_def connectWebSocket_def stop_def
      pythonProcess_on_close_def relaunch_timeout_def Let_def)

section \<open>Smoother\<close>

text \<open>
  C10, as the code has it. A payload that is \<^verbatim>\<open>null\<close> or \<^verbatim>\<open>undefined\<close> makes
  \<^verbatim>\<open>updateWaveformData\<close> throw before it assigns anything. For every payload object the
  call returns normally; \<^verbatim>\<open>targetAmplitude\<close> and \<^verbatim>\<open>lastDataTime\<close> take the payload's
  amplitude and the current time when the amplitude is defined and keep their values when
  it is not; \<^verbatim>\<open>wavePhase\<close> takes the payload's phase when that is defined and keeps its
  value when it is not; \<^verbatim>\<open>currentAmplitude\<close> and every field outside the waveform state
  never change. So a payload without amplitude leaves every field but \<^verbatim>\<open>wavePhase\<close> as it
  was, and does not reset the idle clock; \<^verbatim>\<open>wavePhase\<close> still follows the payload's phase,
  and only a payload with neither field leaves the whole state unchanged.
\<close>

theorem updateWaveformData_frame:
  "updateWaveformData now None s = Inl TypeError
   \<and> (\<exists>s'. updateWaveformData now (Some d) s = Inr s'
     \<and> (\<forall>a. amplitude d = Some a \<longrightarrow> targetAmplitude s' = a \<and> lastDataTime s' = now)
     \<and> (amplitude d = None \<longrightarrow>
           targetAmplitude s' = targetAmplitude s \<and> lastDataTime s' = lastDataTime s)
     \<and> (\<forall>p. phase d = Some p \<longrightarrow> wavePhase s' = p)
     \<and> (phase d = None \<longrightarrow> wavePhase s' = wavePhase s)
     \<and> currentAmplitude s' = currentAmplitude s
     \<and> module_config s' = module_config s
     \<and> ctx s' = ctx s
     \<and> animationFrame s' = animationFrame s
     \<and> connected s' = connected s
     \<and> (amplitude d = None \<longrightarrow> s'\<lparr> wavePhase := wavePhase s \<rparr> = s)
     \<and> (amplitude d = None \<and> phase d = None \<longrightarrow> s' = s))"
  by (cases "amplitude d"; cases "phase d") (simp_all add: Let_def)

theorem updateWaveformData_frame_witness:
  "updateWaveformData 1000 (Some \<lparr> amplitude = None, phase = None \<rparr>)
       (module_started 0 1 defaults)
     = Inr (module_started 0 1 defaults)
   \<and> updateWaveformData 1000 (Some \<lparr> amplitude = Some 0.5, phase = None \<rparr>)
       (module_started 0 1 defaults)
     = Inr ((module_started 0 1 defaults)\<lparr> targetAmplitude := 0.5, lastDataTime := 1000 \<rparr>)
   \<and> updateWaveformData 1000 None (module_started 0 1 defaults) = Inl TypeError"
  using
    updateWaveformData_frame [of 1000 "module_started 0 1 defaults"
      "\<lparr> amplitude = None, phase = None \<rparr>"]
    updateWaveformData_frame [of 1000 "module_started 0 1 defaults"
      "\<lparr> amplitude = Some 0.5, phase = None \<rparr>"]
  by (simp add: module_started_def)

text \<open>
  A payload with a phase of 2 and no amplitude, delivered to the module as \<^verbatim>\<open>start\<close> left
  it: \<^verbatim>\<open>wavePhase\<close>, which is part of the Smoother's state, goes from 0 to 2, so the state
  is not left unchanged.
\<close>

theorem phase_only_payload_moves_wavePhase_counterexample:
  "amplitude \<lparr> amplitude = None, phase = Some 2 \<rparr> = None
   \<and> updateWaveformData 1000 (Some \<lparr> amplitude = None, phase = Some 2 \<rparr>)
         (module_started 0 1 defaults)
       = Inr ((module_started 0 1 defaults)\<lparr> wavePhase := 2 \<rparr>)
   \<and> wavePhase (module_started 0 1 defaults) = 0
   \<and> wavePhase ((module_started 0 1 defaults)\<lparr> wavePhase := 2 \<rparr>) = 2
   \<and> (module_started 0 1 defaults)\<lparr> wavePhase := 2 \<rparr> \<noteq> module_started 0 1 defaults"
  by (simp add: module_started_def)

lemma animateWaveform_amplitudes:
  "currentAmplitude (fst (animateWaveform now frame s)) =
     (if ctx s = None then currentAmplitude s
      else currentAmplitude s + (targetAmplitude s - currentAmplitude s) * 0.18)"
  "targetAmplitude (fst (animateWaveform now frame s)) =
     (if ctx s = None then targetAmplitude s
      else if now - lastDataTime s > 250 then targetAmplitude s * 0.96 else targetAmplitude s)"
  by (simp_all add: animateWaveform_def Let_def split: option.split sum.split)

lemma amp_bounded_frame:
  assumes "amp_bounded M s"
  shows "amp_bounded M (fst (animateWaveform now frame s))"
proof -
  let ?c = "currentAmplitude s" and ?t = "targetAmplitude s"
  from assms have b: "0 \<le> ?t" "?t \<le> M" "0 \<le> ?c" "?c \<le> M"
    by (simp_all add: amp_bounded_def)
  have lo: "0 \<le> ?c + (?t - ?c) * 0.18"
    using b by (simp add: field_simps)
  have hi: "?c + (?t - ?c) * 0.18 \<le> M"
    using b by (simp add: field_simps)
  have dlo: "0 \<le> ?t * 0.96" using b by simp
  have dhi: "?t * 0.96 \<le> M" using b by simp
  show ?thesis
    unfolding amp_bounded_def animateWaveform_amplitudes
    using b lo hi dlo dhi by simp
qed

lemma amp_bounded_sample:
  assumes "amp_bounded M s" and "updateWaveformData now (Some d) s = Inr s'"
    and "\<forall>a. amplitude d = Some a \<longrightarrow> 0 \<le> a"
  shows "amp_bounded (case amplitude d of None \<Rightarrow> M | Some a \<Rightarrow> max a M) s'"
  using assms by (auto simp: amp_bounded_def Let_def split: option.splits)

lemma amp_bounded_step:
  assumes "amp_bounded M s" and "\<forall>a\<in>set (sample_values [ev]). 0 \<le> a"
  shows "amp_bounded (fold max (sample_values [ev]) M) (smoother_step ev s)"
proof (cases ev)
  case (WaveformDataReceived now d)
  show ?thesis
  proof (cases d)
    case None
    with WaveformDataReceived assms(1) show ?thesis by simp
  next
    case (Some d')
    have nonneg: "\<forall>a. amplitude d' = Some a \<longrightarrow> 0 \<le> a"
      using assms(2) WaveformDataReceived Some by (simp split: option.splits)
    obtain s' where s': "updateWaveformData now (Some d') s = Inr s'"
      by (simp add: Let_def)
    have "amp_bounded (case amplitude d' of None \<Rightarrow> M | Some a \<Rightarrow> max a M) s'"
      using assms(1) s' nonneg by (rule amp_bounded_sample)
    then show ?thesis
      using WaveformDataReceived Some s' by (simp split: option.splits)
  qed
next
  case (FrameRequested now frame)
  with assms(1) show ?thesis by (simp add: amp_bounded_frame)
qed

lemma sample_values_Cons:
  "sample_values (ev # evs) = sample_values [ev] @ sample_values evs"
proof (cases ev)
  case (WaveformDataReceived now d)
  then show ?thesis by (cases d) (simp_all split: option.splits)
next
  case (FrameRequested now frame)
  then show ?thesis by simp
qed

lemma amp_bounded_run:
  assumes "amp_bounded M s" and "\<forall>a\<in>set (sample_values evs). 0 \<le> a"
  shows "amp_bounded (fold max (sample_values evs) M) (fold smoother_step evs s)"
  using assms
proof (induction evs arbitrary: M s)
  case Nil
  then show ?case by simp
next
  case (Cons ev evs)
  have split: "sample_values (ev # evs) = sample_values [ev] @ sample_values evs"
    by (rule sample_values_Cons)
  have head: "\<forall>a\<in>set (sample_values [ev]). 0 \<le> a"
    and tail: "\<forall>a\<in>set (sample_values evs). 0 \<le> a"
    using Cons.prems(2) unfolding split by simp_all
  have "amp_bounded (fold max (sample_values [ev]) M) (smoother_step ev s)"
    using Cons.prems(1) head by (rule amp_bounded_step)
  then have "amp_bounded (fold max (sample_values evs) (fold max (sample_values [ev]) M))
      (fold smoother_step evs (smoother_step ev s))"
    using tail by (rule Cons.IH)
  then show ?case
    unfolding split by simp
qed

text \<open>
  C2. Let the Smoother start with \<^verbatim>\<open>currentAmplitude\<close> and \<^verbatim>\<open>targetAmplitude\<close> at 0 and
  receive any sequence of samples and frames in which every sample amplitude lies in
  \<open>[0, 1]\<close>. Then after the whole sequence, and so after each of its prefixes,
  \<^verbatim>\<open>currentAmplitude\<close> is at most the largest sample seen so far (0 before the first
  sample): it exceeds that maximum by nothing at all, hence by no more than any
  non-negative error bound of the 0.18 contraction.
\<close>

theorem smoothed_amplitude_bounded:
  assumes "\<forall>a\<in>set (sample_values evs). 0 \<le> a \<and> a \<le> 1"
    and "currentAmplitude s = 0" and "targetAmplitude s = 0"
  shows "currentAmplitude (smoother_run evs s) \<le> max_sample evs"
proof -
  have "amp_bounded 0 s" using assms(2,3) by (simp add: amp_bounded_def)
  moreover have "\<forall>a\<in>set (sample_values evs). 0 \<le> a" using assms(1) by blast
  ultimately have "amp_bounded (max_sample evs) (smoother_run evs s)"
    unfolding max_sample_def smoother_run_def by (rule amp_bounded_run)
  then show ?thesis by (simp add: amp_bounded_def)
qed

theorem smoothed_amplitude_bounded_witness:
  "max_sample
     [WaveformDataReceived 1000 (Some \<lparr> amplitude = Some 0.8, phase = Some 1.57 \<rparr>),
      FrameRequested 1016 2, FrameRequested 1300 3] = 0.8
   \<and> currentAmplitude
       (smoother_run
          [WaveformDataReceived 1000 (Some \<lparr> amplitude = Some 0.8, phase = Some 1.57 \<rparr>),
           FrameRequested 1016 2, FrameRequested 1300 3]
          (getDom (module_started 0 1 defaults))) \<le> 0.8"
proof -
  let ?evs = "[WaveformDataReceived 1000 (Some \<lparr> amplitude = Some 0.8, phase = Some 1.57 \<rparr>),
               FrameRequested 1016 2, FrameRequested 1300 3]"
  have h1: "\<forall>a\<in>set (sample_values ?evs). 0 \<le> a \<and> a \<le> 1"
    by simp
  have h2: "currentAmplitude (getDom (module_started 0 1 defaults)) = 0"
    by (simp add: getDom_def module_started_def)
  have h3: "targetAmplitude (getDom (module_started 0 1 defaults)) = 0"
    by (simp add: getDom_def module_started_def)
  have m: "max_sample ?evs = 0.8"
    by (simp add: max_sample_def)
  show ?thesis
    using smoothed_amplitude_bounded [OF h1 h2 h3] m by simp
qed

section \<open>Renderer\<close>

lemma wave_point_spec:
  assumes "2 \<le> w" and "i < min 200 w"
  shows "wave_point amp ph w h (min 200 w) (max 12 (6 + amp * 6)) i =
           (Some (fst (spec_point amp ph w h i)), Some (snd (spec_point amp ph w h i)))"
proof -
  have nz: "real (min 200 w) - 1 \<noteq> 0"
    using assms(1) by (simp add: min_def)
  show ?thesis
    using nz by (simp add: wave_point_def spec_point_def js_div_def Let_def algebra_simps)
qed

text \<open>
  C4. For every amplitude, phase and height and every canvas at least 2 pixels wide, the
  \<^verbatim>\<open>points\<close> array of \<^verbatim>\<open>drawWaveform\<close> is the reference sequence: \<open>min 200 width\<close>
  points, each with finite coordinates equal to the reference \<open>x\<close> and \<open>y\<close>. The array
  is a function of amplitude, phase, width and height, so equal inputs give equal arrays.
\<close>

theorem renderer_matches_reference:
  assumes "2 \<le> canvas_width c"
  shows "drawWaveform_points amp ph c =
           map (\<lambda>p. (Some (fst p), Some (snd p)))
             (spec_points amp ph (canvas_width c) (canvas_height c))
       \<and> length (drawWaveform_points amp ph c) = min 200 (canvas_width c)"
proof -
  have "map (wave_point amp ph (canvas_width c) (canvas_height c) (min 200 (canvas_width c))
              (max 12 (6 + amp * 6))) [0..<min 200 (canvas_width c)]
        = map (\<lambda>i. (Some (fst (spec_point amp ph (canvas_width c) (canvas_height c) i)),
                     Some (snd (spec_point amp ph (canvas_width c) (canvas_height c) i))))
            [0..<min 200 (canvas_width c)]"
    by (rule map_cong [OF refl]) (simp add: wave_point_spec [OF assms])
  then show ?thesis
    by (simp add: drawWaveform_points_def spec_points_def Let_def comp_def)
qed

theorem renderer_matches_reference_witness:
  "drawWaveform_points 1 0 \<lparr> canvas_width = 2, canvas_height = 100 \<rparr> =
     [(Some 12, Some 50), (Some (-10), Some 50)]"
proof -
  have h: "2 \<le> canvas_width \<lparr> canvas_width = 2, canvas_height = 100 \<rparr>"
    by simp
  have "[0..<2] = [0, 1::nat]"
    by (simp add: upt_rec)
  moreover have "sin (4 * pi) = 0" "sin (7 * pi) = 0" "sin (2 * pi) = 0"
    using sin_npi_numeral [of "num.Bit0 (num.Bit0 num.One)"]
      sin_npi_numeral [of "num.Bit1 (num.Bit1 num.One)"]
    by simp_all
  ultimately show ?thesis
    using renderer_matches_reference [OF h, of 1 0]
    by (simp add: spec_points_def spec_point_def Let_def)
qed

text \<open>
  C9 at width 1. On a canvas one pixel wide, whatever the amplitude, the phase and the
  height, \<^verbatim>\<open>numPoints\<close> is 1 and \<^verbatim>\<open>t = 0 / 0\<close>: the single point has neither a finite
  \<open>x\<close> nor a finite \<open>y\<close>, and \<^verbatim>\<open>drawWaveform\<close> goes on to stroke it without throwing.
\<close>

theorem single_column_canvas_yields_nan:
  "drawWaveform_points amp ph \<lparr> canvas_width = 1, canvas_height = h \<rparr> = [(None, None)]
   \<and> drawWaveform amp ph \<lparr> canvas_width = 1, canvas_height = h \<rparr> = Inr [(None, None)]"
  by (simp add: drawWaveform_def drawWaveform_points_def wave_point_def js_div_def Let_def)

end
